theory Spec2Isabelle
  imports Main
begin

section \<open>JavaScript strings and numbers\<close>

text \<open>
  Text is a list of characters. The string methods the application calls are written out:
  \<^verbatim>\<open>s.startsWith(p)\<close>, \<^verbatim>\<open>s.includes(p)\<close>, \<^verbatim>\<open>s.trim()\<close> and
  \<^verbatim>\<open>s.replace(p, r)\<close> with a string pattern (only the first occurrence is replaced; the
  replacement is taken as it is, the one in use has no \<^verbatim>\<open>$\<close> pattern).
  The receiver is the first argument. A character stands for a code unit below 256; of
  the code points \<^verbatim>\<open>trim\<close> strips, those in that range are tab, line feed, vertical tab,
  form feed, carriage return, space and the no-break space U+00A0.
\<close>

definition js_startsWith :: "string \<Rightarrow> string \<Rightarrow> bool" where
  "js_startsWith s p = (take (length p) s = p)"

fun js_includes :: "string \<Rightarrow> string \<Rightarrow> bool" where
  "js_includes [] p = (p = [])"
| "js_includes (c # cs) p = (js_startsWith (c # cs) p \<or> js_includes cs p)"

definition isWhiteSpace :: "char \<Rightarrow> bool" where
  "isWhiteSpace c =
     (c \<in> {CHR 0x09, CHR 0x0A, CHR 0x0B, CHR 0x0C, CHR 0x0D, CHR '' '', CHR 0xA0})"

definition js_trim :: "string \<Rightarrow> string" where
  "js_trim s = rev (dropWhile isWhiteSpace (rev (dropWhile isWhiteSpace s)))"

fun js_replace :: "string \<Rightarrow> string \<Rightarrow> string \<Rightarrow> string" where
  "js_replace [] p r = (if p = [] then r else [])"
| "js_replace (c # cs) p r =
     (if js_startsWith (c # cs) p then r @ drop (length p) (c # cs)
      else c # js_replace cs p r)"

text \<open>
  \<^verbatim>\<open>`${res.status}`\<close> renders a non-negative integer in decimal, most significant
  digit first, without leading zeros.
\<close>

definition digit :: "nat \<Rightarrow> char" where
  "digit d = ''0123456789'' ! d"

fun toString :: "nat \<Rightarrow> string" where
  "toString n = (if n < 10 then [digit n] else toString (n div 10) @ [digit (n mod 10)])"

declare toString.simps [simp del]

section \<open>Thrown values and the error classifier\<close>

text \<open>
  \<^verbatim>\<open>catch (e)\<close> receives a value of type \<^verbatim>\<open>unknown\<close>. What the classifier can tell
  apart is whether it is an \<^verbatim>\<open>Error\<close> object, whether that object is a
  \<^verbatim>\<open>TypeError\<close>, and its message. \<open>SyntaxError\<close> is what \<^verbatim>\<open>res.json()\<close> rejects
  with on a malformed body; \<open>PlainError\<close> is \<^verbatim>\<open>new Error(...)\<close>.
\<close>

datatype error_class = TypeError | SyntaxError | PlainError

datatype thrown = ErrorObject error_class string | NotAnError

definition msgConnectivity :: string where
  "msgConnectivity = ''Unable to connect. Check your internet connection and try again.''"

definition msgRateLimit :: string where
  "msgRateLimit = ''Too many requests. Please try again in a moment.''"

definition msgServer :: string where
  "msgServer = ''Something went wrong on our end. Please try again later.''"

definition msgRequestFailed :: string where
  "msgRequestFailed = ''Request failed. Please check your connection and try again.''"

definition msgBookNotLoaded :: string where
  "msgBookNotLoaded = ''Book could not be loaded. Please try again.''"

definition msgGeneric :: string where
  "msgGeneric = ''Something went wrong. Please try again.''"

text \<open>\<^verbatim>\<open>getApiErrorMessage\<close> of the search screen (search.tsx).\<close>

fun getApiErrorMessage_search :: "thrown \<Rightarrow> string" where
  "getApiErrorMessage_search (ErrorObject cls message) =
     (if cls = TypeError \<and> js_includes message ''fetch'' then msgConnectivity
      else if js_startsWith message ''API error: 429'' then msgRateLimit
      else if js_startsWith message ''API error: 5'' then msgServer
      else if js_startsWith message ''API error: 4'' then msgRequestFailed
      else msgGeneric)"
| "getApiErrorMessage_search NotAnError = msgGeneric"

text \<open>\<^verbatim>\<open>getApiErrorMessage\<close> of the detail screen (book/[id].tsx).\<close>

fun getApiErrorMessage_book :: "thrown \<Rightarrow> string" where
  "getApiErrorMessage_book (ErrorObject cls message) =
     (if cls = TypeError \<and> js_includes message ''fetch'' then msgConnectivity
      else if js_startsWith message ''API error: 429'' then msgRateLimit
      else if js_startsWith message ''API error: 5'' then msgServer
      else if js_startsWith message ''API error: 4'' then msgBookNotLoaded
      else msgGeneric)"
| "getApiErrorMessage_book NotAnError = msgGeneric"

text \<open>The value thrown by \<^verbatim>\<open>throw new Error(`API error: ${res.status}`)\<close>.\<close>

definition apiError :: "nat \<Rightarrow> thrown" where
  "apiError st = ErrorObject PlainError (''API error: '' @ toString st)"

section \<open>Books\<close>

text \<open>
  The records of types/book.ts. An optional field is an \<open>option\<close>. The rating is a
  number that no operation below reads; it is kept as an optional integer.
\<close>

record bookImageLinks =
  thumbnail :: "string option"
  smallThumbnail :: "string option"
  small :: "string option"
  medium :: "string option"
  large :: "string option"

record bookVolumeInfo =
  title :: string
  authors :: "string list option"
  averageRating :: "int option"
  description :: "string option"
  imageLinks :: "bookImageLinks option"

record book =
  book_id :: string
  volumeInfo :: bookVolumeInfo

record bookDetailParams =
  param_id :: string
  param_title :: "string option"
  param_authors :: "string option"
  param_thumbnail :: "string option"
  param_rating :: "string option"
  param_description :: "string option"

section \<open>Requests and what \<^verbatim>\<open>fetch\<close> answers\<close>

text \<open>
  A request is the endpoint, the resource appended to it (the book identifier of a lookup)
  and the query parameters in the order \<^verbatim>\<open>URLSearchParams\<close> holds them. The
  percent-encoding of the final URL text is not part of the model.
  \<open>BOOKS_API_KEY\<close> comes from the environment and is a parameter of every client; it is
  added only when it is a non-empty string.
\<close>

record request =
  endpoint :: string
  resource :: "string option"
  params :: "(string \<times> string) list"

definition BOOKS_API_BASE :: string where
  "BOOKS_API_BASE = ''https://www.googleapis.com/books/v1/volumes''"

definition keyParam :: "string option \<Rightarrow> (string \<times> string) list" where
  "keyParam BOOKS_API_KEY =
     (case BOOKS_API_KEY of None \<Rightarrow> [] | Some k \<Rightarrow> if k = [] then [] else [(''key'', k)])"

text \<open>
  The promise returned by \<^verbatim>\<open>fetch\<close> either rejects with a thrown value or resolves to a
  response. Of a response the clients read \<^verbatim>\<open>ok\<close>, \<^verbatim>\<open>status\<close> and
  \<^verbatim>\<open>json()\<close>, which itself either rejects or yields the parsed body; \<^verbatim>\<open>ok\<close> is a
  field of its own, as the clients read it.
  The body of a volume list is \<^verbatim>\<open>null\<close> or an object whose \<^verbatim>\<open>items\<close> field
  may be absent; the body of a single volume is a book or \<^verbatim>\<open>null\<close>.
\<close>

datatype 'b response = Response (ok: bool) (status: nat) (json: "thrown + 'b")

datatype 'b fetch_outcome = Rejects thrown | Resolves "'b response"

datatype volumes_body = NullBody | ObjectBody (items: "book list option")

text \<open>Reading \<^verbatim>\<open>data.items\<close> when \<^verbatim>\<open>data\<close> is \<^verbatim>\<open>null\<close> throws this \<^verbatim>\<open>TypeError\<close>.\<close>

definition nullItemsError :: thrown where
  "nullItemsError = ErrorObject TypeError
     (''Cannot read properties of null (reading '' @ [CHR 0x27] @ ''items'' @ [CHR 0x27] @ '')'')"

section \<open>The clients\<close>

record popular_result =
  data :: "book list"
  error :: "string option"

definition popularRequest :: "string option \<Rightarrow> request" where
  "popularRequest BOOKS_API_KEY =
     \<lparr>endpoint = BOOKS_API_BASE, resource = None,
      params = [(''q'', ''subject:fiction''), (''orderBy'', ''relevance''), (''maxResults'', ''15'')]
               @ keyParam BOOKS_API_KEY\<rparr>"

text \<open>The \<^verbatim>\<open>try\<close> block of \<^verbatim>\<open>fetchPopularBooks\<close>: \<open>Inl\<close> is a throw.\<close>

definition fetchPopularBooks_try ::
  "string option \<Rightarrow> (request \<Rightarrow> volumes_body fetch_outcome) \<Rightarrow> thrown + popular_result" where
  "fetchPopularBooks_try BOOKS_API_KEY fetch =
     (case fetch (popularRequest BOOKS_API_KEY) of
        Rejects e \<Rightarrow> Inl e
      | Resolves res \<Rightarrow>
          if \<not> ok res then Inl (apiError (status res))
          else (case json res of
                  Inl e \<Rightarrow> Inl e
                | Inr NullBody \<Rightarrow> Inl nullItemsError
                | Inr (ObjectBody its) \<Rightarrow>
                    Inr \<lparr>data = (case its of None \<Rightarrow> [] | Some bs \<Rightarrow> bs), error = None\<rparr>))"

definition fetchPopularBooks ::
  "string option \<Rightarrow> (request \<Rightarrow> volumes_body fetch_outcome) \<Rightarrow> popular_result" where
  "fetchPopularBooks BOOKS_API_KEY fetch =
     (case fetchPopularBooks_try BOOKS_API_KEY fetch of
        Inr r \<Rightarrow> r
      | Inl e \<Rightarrow> \<lparr>data = [], error = Some (getApiErrorMessage_search e)\<rparr>)"

record lookup_result =
  book :: "book option"
  lookup_error :: "string option"

definition lookupRequest :: "string option \<Rightarrow> string \<Rightarrow> request" where
  "lookupRequest BOOKS_API_KEY ident =
     \<lparr>endpoint = BOOKS_API_BASE, resource = Some ident, params = keyParam BOOKS_API_KEY\<rparr>"

text \<open>The \<^verbatim>\<open>try\<close> block of \<^verbatim>\<open>fetchBookById\<close>.\<close>

definition fetchBookById_try ::
  "string option \<Rightarrow> (request \<Rightarrow> book option fetch_outcome) \<Rightarrow> string \<Rightarrow> thrown + lookup_result" where
  "fetchBookById_try BOOKS_API_KEY fetch ident =
     (case fetch (lookupRequest BOOKS_API_KEY ident) of
        Rejects e \<Rightarrow> Inl e
      | Resolves res \<Rightarrow>
          if \<not> ok res then Inl (apiError (status res))
          else (case json res of
                  Inl e \<Rightarrow> Inl e
                | Inr b \<Rightarrow> Inr \<lparr>book = b, lookup_error = None\<rparr>))"

definition fetchBookById ::
  "string option \<Rightarrow> (request \<Rightarrow> book option fetch_outcome) \<Rightarrow> string \<Rightarrow> lookup_result" where
  "fetchBookById BOOKS_API_KEY fetch ident =
     (case fetchBookById_try BOOKS_API_KEY fetch ident of
        Inr r \<Rightarrow> r
      | Inl e \<Rightarrow> \<lparr>book = None, lookup_error = Some (getApiErrorMessage_book e)\<rparr>)"

section \<open>The search screen\<close>

text \<open>
  The component state of \<^verbatim>\<open>SearchScreen\<close>, with what the closures and the runtime hold:
  the \<^verbatim>\<open>cancelled\<close> flag of the popular-books effect, the one debounce timer (its
  deadline and the query text its callback captured), the clock, the log of the search
  requests sent so far, and the indices of those still in flight.
\<close>

record search_call =
  issued_at :: nat
  argument :: string
  sent :: request

record search_screen =
  query :: string
  books :: "book list"
  popularBooks :: "book list"
  loading :: bool
  loadingPopular :: bool
  errorPopular :: "string option"
  errorSearch :: "string option"
  cancelled :: bool
  popularPending :: bool
  timer :: "(nat \<times> string) option"
  clock :: nat
  calls :: "search_call list"
  pending :: "nat list"
  mounted :: bool

definition searchRequest :: "string option \<Rightarrow> string \<Rightarrow> request" where
  "searchRequest BOOKS_API_KEY q =
     \<lparr>endpoint = BOOKS_API_BASE, resource = None,
      params = [(''q'', js_trim q), (''maxResults'', ''20'')] @ keyParam BOOKS_API_KEY\<rparr>"

text \<open>
  \<^verbatim>\<open>fetchBooks(q)\<close> up to its \<^verbatim>\<open>await fetch(url)\<close>: two state updates and the request.
\<close>

definition fetchBooks_begin :: "string option \<Rightarrow> string \<Rightarrow> search_screen \<Rightarrow> search_screen" where
  "fetchBooks_begin BOOKS_API_KEY q s =
     s\<lparr>errorSearch := None, loading := True,
       calls := calls s @ [\<lparr>issued_at = clock s, argument = q, sent = searchRequest BOOKS_API_KEY q\<rparr>],
       pending := pending s @ [length (calls s)]\<rparr>"

text \<open>The rest of its \<^verbatim>\<open>try\<close> block, once the promise of \<^verbatim>\<open>fetch\<close> has settled.\<close>

definition fetchBooks_try :: "volumes_body fetch_outcome \<Rightarrow> thrown + book list" where
  "fetchBooks_try outcome =
     (case outcome of
        Rejects e \<Rightarrow> Inl e
      | Resolves res \<Rightarrow>
          if \<not> ok res then Inl (apiError (status res))
          else (case json res of
                  Inl e \<Rightarrow> Inl e
                | Inr NullBody \<Rightarrow> Inl nullItemsError
                | Inr (ObjectBody its) \<Rightarrow> Inr (case its of None \<Rightarrow> [] | Some bs \<Rightarrow> bs)))"

text \<open>
  \<^verbatim>\<open>fetchBooks\<close> after the \<^verbatim>\<open>await\<close>: \<^verbatim>\<open>setBooks\<close>, the \<^verbatim>\<open>catch\<close> block and
  \<^verbatim>\<open>finally\<close>. Nothing is tested before the state is written.
\<close>

definition fetchBooks_resume :: "volumes_body fetch_outcome \<Rightarrow> search_screen \<Rightarrow> search_screen" where
  "fetchBooks_resume outcome s =
     (case fetchBooks_try outcome of
        Inr bs \<Rightarrow> s\<lparr>books := bs, loading := False\<rparr>
      | Inl e \<Rightarrow> s\<lparr>books := [], errorSearch := Some (getApiErrorMessage_search e), loading := False\<rparr>)"

text \<open>
  The callbacks of the popular-books effect, run when \<^verbatim>\<open>fetchPopularBooks()\<close> settles:
  both test the \<^verbatim>\<open>cancelled\<close> flag of the effect's closure.
\<close>

definition popularEffect_resume :: "popular_result \<Rightarrow> search_screen \<Rightarrow> search_screen" where
  "popularEffect_resume r s =
     (let s1 = (if \<not> cancelled s then s\<lparr>popularBooks := data r, errorPopular := error r\<rparr> else s)
      in if \<not> cancelled s1 then s1\<lparr>loadingPopular := False\<rparr> else s1)"

text \<open>
  The debounce effect, run after a render in which \<^verbatim>\<open>query\<close> has changed, and its cleanup,
  run before the next run of the effect and at unmount.
\<close>

definition debounceEffect :: "search_screen \<Rightarrow> search_screen" where
  "debounceEffect s =
     (if js_trim (query s) = [] then s\<lparr>books := []\<rparr>
      else s\<lparr>timer := Some (clock s + 400, query s)\<rparr>)"

definition debounceCleanup :: "search_screen \<Rightarrow> search_screen" where
  "debounceCleanup s = s\<lparr>timer := None\<rparr>"

text \<open>
  What happens to the screen:
  \<^item> \<open>ChangeText t\<close>: \<^verbatim>\<open>onChangeText\<close> (or the clear button, with the empty text) calls
    \<^verbatim>\<open>setQuery(t)\<close>. A state set to the value it already has causes no render and no
    effect; otherwise the cleanup of the previous run and then the effect run.
  \<^item> \<open>Advance d\<close>: \<open>d\<close> time units pass; a timer whose deadline is reached calls
    \<^verbatim>\<open>fetchBooks\<close> with the captured text, at its deadline.
  \<^item> \<open>Settle i outcome\<close>: the \<^verbatim>\<open>fetch\<close> of the \<open>i\<close>-th search request settles.
  \<^item> \<open>SettlePopular outcome\<close>: the \<^verbatim>\<open>fetch\<close> of the popular-books request settles.
  \<^item> \<open>Unmount\<close>: the cleanups of the effects run.
  The runtime drops state updates of an unmounted component.
\<close>

datatype event =
    ChangeText string
  | Advance nat
  | Settle nat "volumes_body fetch_outcome"
  | SettlePopular "volumes_body fetch_outcome"
  | Unmount

definition fireTimer :: "string option \<Rightarrow> nat \<Rightarrow> search_screen \<Rightarrow> search_screen" where
  "fireTimer BOOKS_API_KEY d s =
     (case timer s of
        None \<Rightarrow> s
      | Some (deadline, q) \<Rightarrow>
          if deadline \<le> clock s + d
          then fetchBooks_begin BOOKS_API_KEY q (s\<lparr>timer := None, clock := deadline\<rparr>)
          else s)"

fun step :: "string option \<Rightarrow> search_screen \<Rightarrow> event \<Rightarrow> search_screen" where
  "step BOOKS_API_KEY s (ChangeText t) =
     (if mounted s \<and> t \<noteq> query s
      then debounceEffect (debounceCleanup (s\<lparr>query := t\<rparr>))
      else s)"
| "step BOOKS_API_KEY s (Advance d) =
     (fireTimer BOOKS_API_KEY d s)\<lparr>clock := clock s + d\<rparr>"
| "step BOOKS_API_KEY s (Settle i outcome) =
     (if i \<in> set (pending s)
      then (let s1 = s\<lparr>pending := removeAll i (pending s)\<rparr>
            in if mounted s then fetchBooks_resume outcome s1 else s1)
      else s)"
| "step BOOKS_API_KEY s (SettlePopular outcome) =
     (if popularPending s
      then (let s1 = s\<lparr>popularPending := False\<rparr>
            in if mounted s
               then popularEffect_resume (fetchPopularBooks BOOKS_API_KEY (\<lambda>_. outcome)) s1
               else s1)
      else s)"
| "step BOOKS_API_KEY s Unmount =
     debounceCleanup (s\<lparr>cancelled := True, mounted := False\<rparr>)"

definition run :: "string option \<Rightarrow> search_screen \<Rightarrow> event list \<Rightarrow> search_screen" where
  "run BOOKS_API_KEY s evs = foldl (step BOOKS_API_KEY) s evs"

text \<open>
  The screen after mounting: the initial values of \<^verbatim>\<open>useState\<close>, the popular-books effect
  started (its request in flight), the debounce effect run once on the empty query.
\<close>

definition mountedScreen :: search_screen where
  "mountedScreen =
     \<lparr>query = [], books = [], popularBooks = [], loading = False, loadingPopular = True,
      errorPopular = None, errorSearch = None, cancelled = False, popularPending = True,
      timer = None, clock = 0, calls = [], pending = [], mounted = True\<rparr>"

section \<open>The detail screen\<close>

record detail_screen =
  fetched :: "book option"
  detail_loading :: bool
  fetchError :: "string option"
  detail_cancelled :: bool

definition msgNotFound :: string where
  "msgNotFound = ''Book not found. It may have been removed or the link is invalid.''"

text \<open>
  The \<^verbatim>\<open>then\<close> callback shared by \<^verbatim>\<open>loadBook\<close> and the effect:
  \<^verbatim>\<open>setFetched(book ?? null)\<close> and
  \<^verbatim>\<open>setFetchError(error ?? (book ? null : 'Book not found. ...'))\<close>.
\<close>

definition applyLookup :: "lookup_result \<Rightarrow> detail_screen \<Rightarrow> detail_screen" where
  "applyLookup r s =
     s\<lparr>fetched := book r,
       fetchError := (case lookup_error r of
                        Some e \<Rightarrow> Some e
                      | None \<Rightarrow> (case book r of Some _ \<Rightarrow> None | None \<Rightarrow> Some msgNotFound))\<rparr>"

text \<open>The callbacks of the effect test the \<^verbatim>\<open>cancelled\<close> flag of its closure.\<close>

definition detailEffect_resume :: "lookup_result \<Rightarrow> detail_screen \<Rightarrow> detail_screen" where
  "detailEffect_resume r s =
     (let s1 = (if \<not> detail_cancelled s then applyLookup r s else s)
      in if \<not> detail_cancelled s1 then s1\<lparr>detail_loading := False\<rparr> else s1)"

section \<open>Cover images\<close>

text \<open>
  \<^verbatim>\<open>a || b\<close> on optional strings takes \<open>b\<close> when \<open>a\<close> is absent or empty;
  \<^verbatim>\<open>a ?? b\<close> takes \<open>b\<close> only when \<open>a\<close> is absent. \<^verbatim>\<open>x ? <Image uri=x> : placeholder\<close>
  hands \<open>x\<close> to the image renderer when it is present and non-empty.
\<close>

definition js_or :: "string option \<Rightarrow> string option \<Rightarrow> string option" where
  "js_or a b = (case a of None \<Rightarrow> b | Some x \<Rightarrow> if x = [] then b else Some x)"

definition nullish :: "'a option \<Rightarrow> 'a option \<Rightarrow> 'a option" where
  "nullish a b = (case a of None \<Rightarrow> b | Some x \<Rightarrow> Some x)"

definition rendered :: "string option \<Rightarrow> string option" where
  "rendered x = (case x of None \<Rightarrow> None | Some u \<Rightarrow> if u = [] then None else Some u)"

definition toHttps :: "string option \<Rightarrow> string option" where
  "toHttps x = map_option (\<lambda>u. js_replace u ''http://'' ''https://'') x"

definition linkOf :: "(bookImageLinks \<Rightarrow> string option) \<Rightarrow> bookVolumeInfo \<Rightarrow> string option" where
  "linkOf field info = (case imageLinks info of None \<Rightarrow> None | Some links \<Rightarrow> field links)"

text \<open>\<^verbatim>\<open>BookRow\<close> of the search screen: the \<^verbatim>\<open>uri\<close> of the cover, or none (placeholder).\<close>

definition bookRow_thumbnail :: "book \<Rightarrow> string option" where
  "bookRow_thumbnail b =
     js_or (toHttps (linkOf thumbnail (volumeInfo b)))
           (toHttps (linkOf smallThumbnail (volumeInfo b)))"

definition bookRow_image :: "book \<Rightarrow> string option" where
  "bookRow_image b = rendered (bookRow_thumbnail b)"

text \<open>\<^verbatim>\<open>BookDetailScreen\<close>: the navigation parameter first, then the links of the fetched book.\<close>

definition detail_thumbnail :: "bookDetailParams \<Rightarrow> book option \<Rightarrow> string option" where
  "detail_thumbnail ps fb =
     (let info = map_option volumeInfo fb;
          link = (\<lambda>field. case info of None \<Rightarrow> None | Some i \<Rightarrow> linkOf field i)
      in nullish (param_thumbnail ps)
          (nullish (link thumbnail)
            (nullish (link smallThumbnail)
              (nullish (link small)
                (nullish (link medium) (link large))))))"

definition detail_image :: "bookDetailParams \<Rightarrow> book option \<Rightarrow> string option" where
  "detail_image ps fb = rendered (toHttps (detail_thumbnail ps fb))"

section \<open>Vocabulary of the properties\<close>

text \<open>The messages each classifier can answer.\<close>

definition classifiedSearch :: "string set" where
  "classifiedSearch = {msgConnectivity, msgRateLimit, msgServer, msgRequestFailed, msgGeneric}"

definition classifiedBook :: "string set" where
  "classifiedBook = {msgConnectivity, msgRateLimit, msgServer, msgBookNotLoaded, msgGeneric}"

text \<open>
  The failure modes of a request: the promise of \<^verbatim>\<open>fetch\<close> rejects (network exception),
  the response is not \<^verbatim>\<open>ok\<close> (status outside 2xx), or \<^verbatim>\<open>json()\<close> rejects (the body
  does not parse).
\<close>

definition failed :: "'b fetch_outcome \<Rightarrow> bool" where
  "failed outcome =
     (case outcome of
        Rejects e \<Rightarrow> True
      | Resolves res \<Rightarrow> (if ok res then isl (json res) else True))"

text \<open>
  A burst of keystrokes: each is the time passed since the previous event and the new text
  of the input. A keystroke changes the text: \<open>changing cur ts\<close> says that each text of
  \<open>ts\<close> differs from the one before it, starting from \<open>cur\<close>.
\<close>

definition typing :: "(nat \<times> string) list \<Rightarrow> event list" where
  "typing ks = concat (map (\<lambda>(d, t). [Advance d, ChangeText t]) ks)"

fun changing :: "string \<Rightarrow> string list \<Rightarrow> bool" where
  "changing cur [] = True"
| "changing cur (t # ts) = (t \<noteq> cur \<and> changing t ts)"

fun isChangeText :: "event \<Rightarrow> bool" where
  "isChangeText (ChangeText t) = True"
| "isChangeText _ = False"

text \<open>An event that is not the entry of a text with a character other than whitespace.\<close>

fun blankOrOther :: "event \<Rightarrow> bool" where
  "blankOrOther (ChangeText t) = list_all isWhiteSpace t"
| "blankOrOther _ = True"

text \<open>Nothing scheduled, nothing sent, nothing shown.\<close>

definition idle :: "search_screen \<Rightarrow> bool" where
  "idle s = (timer s = None \<and> calls s = [] \<and> pending s = [] \<and> books s = [])"

text \<open>
  Concrete inputs: the book of the test suite (api.test.tsx), a successful response carrying
  a list of books, and navigation parameters that carry the identifier only, as
  \<^verbatim>\<open>navigateToBook\<close> pushes them.
\<close>

definition testBook :: book where
  "testBook = \<lparr>book_id = ''1'',
     volumeInfo = \<lparr>title = ''Test Book'', authors = Some [''Author''], averageRating = None,
                   description = None, imageLinks = None\<rparr>\<rparr>"

definition found :: "book list \<Rightarrow> volumes_body fetch_outcome" where
  "found bs = Resolves (Response True 200 (Inr (ObjectBody (Some bs))))"

definition idOnly :: "string \<Rightarrow> bookDetailParams" where
  "idOnly ident = \<lparr>param_id = ident, param_title = None, param_authors = None,
     param_thumbnail = None, param_rating = None, param_description = None\<rparr>"

definition coverOnly :: "string \<Rightarrow> bookImageLinks" where
  "coverOnly u = \<lparr>thumbnail = Some u, smallThumbnail = None, small = None, medium = None, large = None\<rparr>"

definition smallCoverOnly :: "string \<Rightarrow> bookImageLinks" where
  "smallCoverOnly u = \<lparr>thumbnail = None, smallThumbnail = Some u, small = None, medium = None, large = None\<rparr>"

definition withLinks :: "bookImageLinks \<Rightarrow> book \<Rightarrow> book" where
  "withLinks links b = b\<lparr>volumeInfo := (volumeInfo b)\<lparr>imageLinks := Some links\<rparr>\<rparr>"

text \<open>The detail screen as \<^verbatim>\<open>useState\<close> initialises it.\<close>

definition detailInitial :: detail_screen where
  "detailInitial = \<lparr>fetched = None, detail_loading = False, fetchError = None,
     detail_cancelled = False\<rparr>"

section \<open>Properties of the error classifier\<close>

subsection \<open>Decimal status codes\<close>

lemma toString_3digits:
  assumes "100 \<le> n" "n < 1000"
  shows "toString n = [digit (n div 100), digit (n div 10 mod 10), digit (n mod 10)]"
proof -
  have a: "\<not> n < 10" "\<not> n div 10 < 10" "n div 100 < 10" using assms by auto
  have e: "n div 10 div 10 = n div 100" by (simp add: div_mult2_eq)
  have "toString (n div 100) = [digit (n div 100)]"
    using a(3) by (simp add: toString.simps[of "n div 100"])
  moreover have "toString (n div 10) = toString (n div 100) @ [digit (n div 10 mod 10)]"
    using a(2) e by (simp add: toString.simps[of "n div 10"])
  moreover have "toString n = toString (n div 10) @ [digit (n mod 10)]"
    using a(1) by (simp add: toString.simps[of n])
  ultimately show ?thesis by simp
qed

lemma digit_eq_iff: 
  assumes "a < 10" "b < 10" shows "digit a = digit b \<longleftrightarrow> a = b"
proof -
  have "a \<in> {0,1,2,3,4,5,6,7,8,9}" "b \<in> {0,1,2,3,4,5,6,7,8,9}" using assms by auto
  then show ?thesis unfolding digit_def by (elim insertE emptyE; simp)
qed

lemma digit_is:
  assumes "d < 10"
  shows "digit d = CHR ''4'' \<longleftrightarrow> d = 4" "digit d = CHR ''2'' \<longleftrightarrow> d = 2"
    "digit d = CHR ''9'' \<longleftrightarrow> d = 9" "digit d = CHR ''5'' \<longleftrightarrow> d = 5"
proof -
  have c: "digit 4 = CHR ''4''" "digit 2 = CHR ''2''" "digit 9 = CHR ''9''" "digit 5 = CHR ''5''"
    by (simp_all add: digit_def)
  show "digit d = CHR ''4'' \<longleftrightarrow> d = 4" using digit_eq_iff[OF assms, of 4] c by simp
  show "digit d = CHR ''2'' \<longleftrightarrow> d = 2" using digit_eq_iff[OF assms, of 2] c by simp
  show "digit d = CHR ''9'' \<longleftrightarrow> d = 9" using digit_eq_iff[OF assms, of 9] c by simp
  show "digit d = CHR ''5'' \<longleftrightarrow> d = 5" using digit_eq_iff[OF assms, of 5] c by simp
qed

lemma digits_429:
  fixes st :: nat
  shows "(st div 100 = 4 \<and> st div 10 mod 10 = 2 \<and> st mod 10 = 9) \<longleftrightarrow> st = 429"
proof
  assume h: "st div 100 = 4 \<and> st div 10 mod 10 = 2 \<and> st mod 10 = 9"
  have "st div 10 div 10 = st div 100" by (simp add: div_mult2_eq)
  then have "st div 10 = 10 * 4 + 2" using h div_mult_mod_eq[of "st div 10" 10] by simp
  then show "st = 429" using h div_mult_mod_eq[of st 10] by simp
next
  assume "st = 429"
  then show "st div 100 = 4 \<and> st div 10 mod 10 = 2 \<and> st mod 10 = 9" by simp
qed

lemma apiError_message:
  assumes "100 \<le> st" "st < 1000"
  shows "apiError st = ErrorObject PlainError
     (''API error: '' @ [digit (st div 100), digit (st div 10 mod 10), digit (st mod 10)])"
  using assms by (simp add: apiError_def toString_3digits)

lemma startsWith_429:
  assumes "st < 1000"
  shows "js_startsWith
           (''API error: '' @ [digit (st div 100), digit (st div 10 mod 10), digit (st mod 10)])
           ''API error: 429''
     \<longleftrightarrow> st = 429"
proof -
  have d: "st div 100 < 10" "st div 10 mod 10 < 10" "st mod 10 < 10" using assms by auto
  have "js_startsWith
           (''API error: '' @ [digit (st div 100), digit (st div 10 mod 10), digit (st mod 10)])
           ''API error: 429''
     \<longleftrightarrow> digit (st div 100) = CHR ''4'' \<and> digit (st div 10 mod 10) = CHR ''2''
         \<and> digit (st mod 10) = CHR ''9''"
    by (simp add: js_startsWith_def)
  also have "\<dots> \<longleftrightarrow> st div 100 = 4 \<and> st div 10 mod 10 = 2 \<and> st mod 10 = 9"
    by (simp only: digit_is[OF d(1)] digit_is[OF d(2)] digit_is[OF d(3)])
  also have "\<dots> \<longleftrightarrow> st = 429" by (rule digits_429)
  finally show ?thesis .
qed

lemma startsWith_5:
  assumes "st < 1000"
  shows "js_startsWith
           (''API error: '' @ [digit (st div 100), digit (st div 10 mod 10), digit (st mod 10)])
           ''API error: 5''
     \<longleftrightarrow> 500 \<le> st \<and> st < 600"
proof -
  have d: "st div 100 < 10" using assms by auto
  have "js_startsWith
           (''API error: '' @ [digit (st div 100), digit (st div 10 mod 10), digit (st mod 10)])
           ''API error: 5''
     \<longleftrightarrow> digit (st div 100) = CHR ''5''"
    by (simp add: js_startsWith_def)
  also have "\<dots> \<longleftrightarrow> st div 100 = 5" by (simp only: digit_is[OF d])
  also have "\<dots> \<longleftrightarrow> 500 \<le> st \<and> st < 600" by auto
  finally show ?thesis .
qed

lemma startsWith_4:
  assumes "st < 1000"
  shows "js_startsWith
           (''API error: '' @ [digit (st div 100), digit (st div 10 mod 10), digit (st mod 10)])
           ''API error: 4''
     \<longleftrightarrow> 400 \<le> st \<and> st < 500"
proof -
  have d: "st div 100 < 10" using assms by auto
  have "js_startsWith
           (''API error: '' @ [digit (st div 100), digit (st div 10 mod 10), digit (st mod 10)])
           ''API error: 4''
     \<longleftrightarrow> digit (st div 100) = CHR ''4''"
    by (simp add: js_startsWith_def)
  also have "\<dots> \<longleftrightarrow> st div 100 = 4" by (simp only: digit_is[OF d])
  also have "\<dots> \<longleftrightarrow> 400 \<le> st \<and> st < 500" by auto
  finally show ?thesis .
qed

lemma classify_book_status:
  assumes "100 \<le> st" "st < 1000"
  shows "getApiErrorMessage_book (apiError st) =
     (if st = 429 then msgRateLimit
      else if 500 \<le> st \<and> st < 600 then msgServer
      else if 400 \<le> st \<and> st < 500 then msgBookNotLoaded
      else msgGeneric)"
  using startsWith_429[OF assms(2)] startsWith_5[OF assms(2)] startsWith_4[OF assms(2)]
  by (simp add: apiError_message[OF assms] del: append.simps list.simps)

lemma classify_search_status:
  assumes "100 \<le> st" "st < 1000"
  shows "getApiErrorMessage_search (apiError st) =
     (if st = 429 then msgRateLimit
      else if 500 \<le> st \<and> st < 600 then msgServer
      else if 400 \<le> st \<and> st < 500 then msgRequestFailed
      else msgGeneric)"
  using startsWith_429[OF assms(2)] startsWith_5[OF assms(2)] startsWith_4[OF assms(2)]
  by (simp add: apiError_message[OF assms] del: append.simps list.simps)

lemma fetchBookById_not_ok:
  "fetchBookById key (\<lambda>_. Resolves (Response False st j)) ident =
     \<lparr>book = None, lookup_error = Some (getApiErrorMessage_book (apiError st))\<rparr>"
  by (simp add: fetchBookById_def fetchBookById_try_def)

lemma fetchPopularBooks_not_ok:
  "fetchPopularBooks key (\<lambda>_. Resolves (Response False st j)) =
     \<lparr>data = [], error = Some (getApiErrorMessage_search (apiError st))\<rparr>"
  by (simp add: fetchPopularBooks_def fetchPopularBooks_try_def)

lemma fetchBooks_resume_not_ok:
  "fetchBooks_resume (Resolves (Response False st j)) s =
     s\<lparr>books := [], errorSearch := Some (getApiErrorMessage_search (apiError st)),
       loading := False\<rparr>"
  by (simp add: fetchBooks_resume_def fetchBooks_try_def)

text \<open>
  Claim C2. A response that is not \<^verbatim>\<open>ok\<close> is thrown as \<open>apiError st\<close>. For every
  three-digit status both classifiers answer the rate-limit message at 429 (tested before
  the other prefixes, although the text also begins with a 4), the server-error message
  from 500 to 599, from 400 to 499 the message of their call site (the book could not be
  loaded for the lookup, the request failed for the search), and the generic message for
  the rest. A thrown \<^verbatim>\<open>Error\<close> is not a \<^verbatim>\<open>TypeError\<close>, so the connectivity test, which
  comes first, does not apply. The same messages come out of the three call sites:
  \<open>fetchBookById\<close>, \<open>fetchPopularBooks\<close> and the \<^verbatim>\<open>catch\<close> block of \<open>fetchBooks\<close>.
\<close>

theorem status_messages:
  assumes "100 \<le> st" and "st < 1000"
  shows "getApiErrorMessage_book (apiError st) =
           (if st = 429 then msgRateLimit
            else if 500 \<le> st \<and> st < 600 then msgServer
            else if 400 \<le> st \<and> st < 500 then msgBookNotLoaded
            else msgGeneric)
       \<and> getApiErrorMessage_search (apiError st) =
           (if st = 429 then msgRateLimit
            else if 500 \<le> st \<and> st < 600 then msgServer
            else if 400 \<le> st \<and> st < 500 then msgRequestFailed
            else msgGeneric)
       \<and> lookup_error (fetchBookById key (\<lambda>_. Resolves (Response False st j)) ident) =
           Some (getApiErrorMessage_book (apiError st))
       \<and> error (fetchPopularBooks key (\<lambda>_. Resolves (Response False st k))) =
           Some (getApiErrorMessage_search (apiError st))
       \<and> errorSearch (fetchBooks_resume (Resolves (Response False st k)) s) =
           Some (getApiErrorMessage_search (apiError st))"
  using classify_book_status[OF assms] classify_search_status[OF assms]
  by (simp add: fetchBookById_not_ok fetchPopularBooks_not_ok fetchBooks_resume_not_ok)

text \<open>Instances: the statuses 404, 429 and 503, and the lookup of the test suite at 404.\<close>

theorem status_messages_witness:
  "getApiErrorMessage_book (apiError 404) = ''Book could not be loaded. Please try again.''
   \<and> getApiErrorMessage_search (apiError 404)
       = ''Request failed. Please check your connection and try again.''
   \<and> getApiErrorMessage_book (apiError 429) = ''Too many requests. Please try again in a moment.''
   \<and> getApiErrorMessage_search (apiError 503)
       = ''Something went wrong on our end. Please try again later.''
   \<and> lookup_error (fetchBookById None (\<lambda>_. Resolves (Response False 404 (Inl NotAnError))) ''bad-id'')
       = Some ''Book could not be loaded. Please try again.''"
  using status_messages[of 404 None "Inl NotAnError" "''bad-id''"] status_messages[of 429]
    status_messages[of 503]
  by (simp add: msgBookNotLoaded_def msgRequestFailed_def msgRateLimit_def msgServer_def)

text \<open>
  What the first branch of the classifier does recognise: a \<^verbatim>\<open>TypeError\<close> whose message
  contains \<open>fetch\<close>, whatever else the message holds, in both classifiers and out of the
  three call sites. The rejection of the test suite, \<open>Failed to fetch\<close>, is of this kind.
\<close>

lemma typeError_naming_fetch_is_connectivity:
  assumes "js_includes message ''fetch''"
  shows "getApiErrorMessage_search (ErrorObject TypeError message) = msgConnectivity
       \<and> getApiErrorMessage_book (ErrorObject TypeError message) = msgConnectivity
       \<and> fetchPopularBooks key (\<lambda>_. Rejects (ErrorObject TypeError message)) =
            \<lparr>data = [], error = Some msgConnectivity\<rparr>
       \<and> fetchBookById key (\<lambda>_. Rejects (ErrorObject TypeError message)) ident =
            \<lparr>book = None, lookup_error = Some msgConnectivity\<rparr>
       \<and> fetchBooks_resume (Rejects (ErrorObject TypeError message)) s =
            s\<lparr>books := [], errorSearch := Some msgConnectivity, loading := False\<rparr>"
  using assms
  by (simp add: fetchPopularBooks_def fetchPopularBooks_try_def fetchBookById_def
      fetchBookById_try_def fetchBooks_resume_def fetchBooks_try_def)

lemma failed_to_fetch_is_connectivity:
  "getApiErrorMessage_search (ErrorObject TypeError ''Failed to fetch'') = msgConnectivity
   \<and> getApiErrorMessage_book (ErrorObject TypeError ''Failed to fetch'') = msgConnectivity"
proof -
  have "js_includes ''Failed to fetch'' ''fetch''" by (simp add: js_startsWith_def)
  then show ?thesis using typeError_naming_fetch_is_connectivity by blast
qed

text \<open>
  Claim C3. Every failure of the transport to reach the host should get the connectivity
  message. The application runs on React Native, whose \<^verbatim>\<open>fetch\<close> rejects with
  \<^verbatim>\<open>TypeError('Network request failed')\<close> when the host cannot be reached. That message
  does not contain \<open>fetch\<close>: the first branch is skipped, no \<open>API error\<close> prefix matches, and
  both classifiers answer the generic message, which is what the two clients return and
  what the search screen shows, instead of the connectivity message.
\<close>

theorem network_request_failed_is_generic:
  "getApiErrorMessage_search (ErrorObject TypeError ''Network request failed'') = msgGeneric
   \<and> getApiErrorMessage_book (ErrorObject TypeError ''Network request failed'') = msgGeneric
   \<and> msgGeneric \<noteq> msgConnectivity
   \<and> fetchPopularBooks None (\<lambda>_. Rejects (ErrorObject TypeError ''Network request failed''))
       = \<lparr>data = [], error = Some msgGeneric\<rparr>
   \<and> fetchBookById None (\<lambda>_. Rejects (ErrorObject TypeError ''Network request failed'')) ''123''
       = \<lparr>book = None, lookup_error = Some msgGeneric\<rparr>
   \<and> errorSearch (fetchBooks_resume (Rejects (ErrorObject TypeError ''Network request failed''))
        mountedScreen) = Some msgGeneric"
proof -
  have g: "getApiErrorMessage_search (ErrorObject TypeError ''Network request failed'') = msgGeneric"
    "getApiErrorMessage_book (ErrorObject TypeError ''Network request failed'') = msgGeneric"
    by (simp_all add: js_startsWith_def)
  have d: "msgGeneric \<noteq> msgConnectivity"
    by (simp add: msgGeneric_def msgConnectivity_def)
  show ?thesis
    using g d
    by (simp add: fetchPopularBooks_def fetchPopularBooks_try_def fetchBookById_def
        fetchBookById_try_def fetchBooks_resume_def fetchBooks_try_def
        del: getApiErrorMessage_search.simps getApiErrorMessage_book.simps)
qed

section \<open>Properties of the clients\<close>

lemma classifier_search_range: "getApiErrorMessage_search e \<in> classifiedSearch"
  by (cases e) (simp_all add: classifiedSearch_def)

lemma classifier_book_range: "getApiErrorMessage_book e \<in> classifiedBook"
  by (cases e) (simp_all add: classifiedBook_def)

lemma popular_try_failed:
  "failed (fetch (popularRequest key)) \<Longrightarrow> \<exists>e. fetchPopularBooks_try key fetch = Inl e"
  by (auto simp: failed_def fetchPopularBooks_try_def
      split: fetch_outcome.splits sum.splits volumes_body.splits if_splits)

lemma lookup_try_failed:
  "failed (fetch (lookupRequest key ident)) \<Longrightarrow> \<exists>e. fetchBookById_try key fetch ident = Inl e"
  by (auto simp: failed_def fetchBookById_try_def split: fetch_outcome.splits sum.splits if_splits)

text \<open>
  Claim C5. Whatever the request and whichever way it fails (the promise rejects, the
  response is not \<^verbatim>\<open>ok\<close>, the body does not parse), the \<^verbatim>\<open>catch\<close> block turns the
  failure into the result pair: \<open>fetchPopularBooks\<close> returns the empty list with one of the
  five messages of its classifier, \<open>fetchBookById\<close> returns no book with one of the five
  messages of its classifier. Both are total functions into the result pair.
\<close>

theorem clients_recover_failures:
  assumes "failed (fetch (popularRequest key))" and "failed (fetch' (lookupRequest key ident))"
  shows "data (fetchPopularBooks key fetch) = []
       \<and> (\<exists>m \<in> classifiedSearch. error (fetchPopularBooks key fetch) = Some m)
       \<and> book (fetchBookById key fetch' ident) = None
       \<and> (\<exists>m \<in> classifiedBook. lookup_error (fetchBookById key fetch' ident) = Some m)"
proof -
  obtain e where e: "fetchPopularBooks_try key fetch = Inl e"
    using assms(1) popular_try_failed[of fetch key] by blast
  obtain e' where e': "fetchBookById_try key fetch' ident = Inl e'"
    using assms(2) lookup_try_failed[of fetch' key ident] by blast
  show ?thesis using classifier_search_range[of e] classifier_book_range[of e']
    by (simp add: fetchPopularBooks_def fetchBookById_def e e')
qed

text \<open>An instance: a rejected popular-books request and a lookup answered with status 404.\<close>

theorem clients_recover_failures_witness:
  "failed (Rejects (ErrorObject TypeError ''Failed to fetch'') :: volumes_body fetch_outcome)
 \<and> failed (Resolves (Response False 404 (Inl NotAnError)) :: book option fetch_outcome)
 \<and> data (fetchPopularBooks None (\<lambda>_. Rejects (ErrorObject TypeError ''Failed to fetch''))) = []
 \<and> (\<exists>m \<in> classifiedSearch.
       error (fetchPopularBooks None (\<lambda>_. Rejects (ErrorObject TypeError ''Failed to fetch''))) = Some m)
 \<and> book (fetchBookById None (\<lambda>_. Resolves (Response False 404 (Inl NotAnError))) ''bad-id'') = None
 \<and> (\<exists>m \<in> classifiedBook.
       lookup_error (fetchBookById None (\<lambda>_. Resolves (Response False 404 (Inl NotAnError))) ''bad-id'')
       = Some m)"
proof -
  have a: "failed ((\<lambda>_. Rejects (ErrorObject TypeError ''Failed to fetch'') :: volumes_body fetch_outcome)
             (popularRequest None))"
    by (simp add: failed_def)
  have b: "failed ((\<lambda>_. Resolves (Response False 404 (Inl NotAnError)) :: book option fetch_outcome)
             (lookupRequest None ''bad-id''))"
    by (simp add: failed_def)
  show ?thesis using clients_recover_failures[OF a b] a b by simp
qed

text \<open>
  Claim C6. A successful response whose body object has no \<^verbatim>\<open>items\<close> field, or an empty
  \<^verbatim>\<open>items\<close> list, is not an error: \<open>fetchPopularBooks\<close> returns the empty list and no
  message; \<open>fetchBooks\<close>, from its start to its end, leaves the empty list in \<open>books\<close>, no
  message in \<open>errorSearch\<close> and \<open>loading\<close> off.
\<close>

theorem empty_success_is_not_error:
  "fetchPopularBooks key (\<lambda>_. Resolves (Response True st (Inr (ObjectBody None))))
     = \<lparr>data = [], error = None\<rparr>
 \<and> fetchPopularBooks key (\<lambda>_. Resolves (Response True st (Inr (ObjectBody (Some [])))))
     = \<lparr>data = [], error = None\<rparr>
 \<and> fetchBooks_resume (Resolves (Response True st (Inr (ObjectBody None)))) (fetchBooks_begin key q s)
     = (fetchBooks_begin key q s)\<lparr>books := [], loading := False\<rparr>
 \<and> fetchBooks_resume (Resolves (Response True st (Inr (ObjectBody (Some []))))) (fetchBooks_begin key q s)
     = (fetchBooks_begin key q s)\<lparr>books := [], loading := False\<rparr>
 \<and> errorSearch (fetchBooks_begin key q s) = None"
  by (simp add: fetchPopularBooks_def fetchPopularBooks_try_def fetchBooks_resume_def
      fetchBooks_try_def fetchBooks_begin_def)

lemma msgNotFound_not_classified: "msgNotFound \<notin> classifiedBook"
  by (simp add: classifiedBook_def msgNotFound_def msgConnectivity_def msgRateLimit_def
      msgServer_def msgBookNotLoaded_def msgGeneric_def)

lemma lookup_error_None_iff:
  "lookup_error (fetchBookById key fetch ident) = None \<longleftrightarrow> \<not> failed (fetch (lookupRequest key ident))"
  by (simp add: fetchBookById_def fetchBookById_try_def failed_def
      split: fetch_outcome.splits sum.splits)

lemma lookup_error_classified:
  "lookup_error (fetchBookById key fetch ident) = Some m \<Longrightarrow> m \<in> classifiedBook"
  using classifier_book_range
  by (auto simp: fetchBookById_def fetchBookById_try_def
      split: fetch_outcome.splits sum.splits if_splits)

lemma lookup_one_field:
  "book (fetchBookById key fetch ident) = None \<or> lookup_error (fetchBookById key fetch ident) = None"
  by (simp add: fetchBookById_def fetchBookById_try_def split: fetch_outcome.splits sum.splits)

lemma popular_one_field:
  "data (fetchPopularBooks key fetch) = [] \<or> error (fetchPopularBooks key fetch) = None"
  by (simp add: fetchPopularBooks_def fetchPopularBooks_try_def
      split: fetch_outcome.splits sum.splits volumes_body.splits)

lemma applyLookup_notFound:
  assumes "lookup_error r \<noteq> Some msgNotFound"
  shows "fetchError (applyLookup r d) = Some msgNotFound
     \<longleftrightarrow> r = \<lparr>book = None, lookup_error = None\<rparr>"
  using assms by (cases r) (auto simp: applyLookup_def split: option.splits)

text \<open>
  Claim C7. In every result of the clients at most one field is populated: books never come
  with a message. \<open>fetchBookById\<close> returns a message exactly when the request failed (the
  promise rejected, the response was not \<^verbatim>\<open>ok\<close>, or its body did not parse), and that
  message is never the not-found message. The not-found message is made by the caller, the
  callback of the detail screen, exactly when the client returned neither a book nor a
  message.
\<close>

theorem result_fields_exclusive:
  "(data (fetchPopularBooks key fetch) = [] \<or> error (fetchPopularBooks key fetch) = None)
 \<and> (book (fetchBookById key fetch' ident) = None \<or> lookup_error (fetchBookById key fetch' ident) = None)
 \<and> (lookup_error (fetchBookById key fetch' ident) = None
      \<longleftrightarrow> \<not> failed (fetch' (lookupRequest key ident)))
 \<and> lookup_error (fetchBookById key fetch' ident) \<noteq> Some msgNotFound
 \<and> (fetchError (applyLookup (fetchBookById key fetch' ident) d) = Some msgNotFound
      \<longleftrightarrow> fetchBookById key fetch' ident = \<lparr>book = None, lookup_error = None\<rparr>)"
proof -
  have nf: "lookup_error (fetchBookById key fetch' ident) \<noteq> Some msgNotFound"
    using lookup_error_classified[of key fetch' ident msgNotFound] msgNotFound_not_classified
    by blast
  show ?thesis
    using popular_one_field[of key fetch] lookup_one_field[of key fetch' ident]
      lookup_error_None_iff[of key fetch' ident] nf applyLookup_notFound[OF nf, of d]
    by blast
qed

text \<open>
  An instance: a lookup answered successfully with \<^verbatim>\<open>null\<close>. The client returns neither
  book nor message, and the screen shows the not-found message.
\<close>

theorem result_fields_exclusive_witness:
  "\<not> failed (Resolves (Response True 200 (Inr None)) :: book option fetch_outcome)
 \<and> fetchBookById None (\<lambda>_. Resolves (Response True 200 (Inr None))) ''123''
     = \<lparr>book = None, lookup_error = None\<rparr>
 \<and> fetchError (applyLookup (fetchBookById None (\<lambda>_. Resolves (Response True 200 (Inr None))) ''123'')
      detailInitial)
     = Some msgNotFound"
proof -
  have a: "\<not> failed (Resolves (Response True 200 (Inr None)) :: book option fetch_outcome)"
    by (simp add: failed_def)
  have b: "lookup_error (fetchBookById None (\<lambda>_. Resolves (Response True 200 (Inr None))) ''123'') = None"
    using result_fields_exclusive[of None "\<lambda>_. Rejects NotAnError"
        "\<lambda>_. Resolves (Response True 200 (Inr None))" "''123''" detailInitial] a
    by simp
  have c: "fetchBookById None (\<lambda>_. Resolves (Response True 200 (Inr None))) ''123''
     = \<lparr>book = None, lookup_error = None\<rparr>"
    by (simp add: fetchBookById_def fetchBookById_try_def)
  show ?thesis
    using result_fields_exclusive[of None "\<lambda>_. Rejects NotAnError"
        "\<lambda>_. Resolves (Response True 200 (Inr None))" "''123''" detailInitial] a c
    by simp
qed

lemma keyParam_cases: "keyParam key = [] \<or> (\<exists>k. keyParam key = [(''key'', k)])"
  by (simp add: keyParam_def split: option.splits)

text \<open>
  What \<open>js_trim\<close> returns: whitespace before and after a text that neither begins nor ends
  with whitespace is removed, and nothing else.
\<close>

lemma js_trim_strips:
  assumes "list_all isWhiteSpace pre" and "list_all isWhiteSpace post"
    and "core \<noteq> []" and "\<not> isWhiteSpace (hd core)" and "\<not> isWhiteSpace (last core)"
  shows "js_trim (pre @ core @ post) = core"
proof -
  have pre: "\<And>x. x \<in> set pre \<Longrightarrow> isWhiteSpace x"
    using assms(1) by (simp add: list_all_iff)
  have post: "\<And>x. x \<in> set (rev post) \<Longrightarrow> isWhiteSpace x"
    using assms(2) by (simp add: list_all_iff)
  have fore: "dropWhile isWhiteSpace (pre @ core @ post) = core @ post"
  proof -
    have "dropWhile isWhiteSpace (pre @ core @ post) = dropWhile isWhiteSpace (core @ post)"
      using pre by (rule dropWhile_append2)
    also have "\<dots> = core @ post"
      using assms(3,4) by (cases core) simp_all
    finally show ?thesis .
  qed
  have aft: "dropWhile isWhiteSpace (rev (core @ post)) = rev core"
  proof -
    have "dropWhile isWhiteSpace (rev post @ rev core) = dropWhile isWhiteSpace (rev core)"
      using post by (rule dropWhile_append2)
    also have "\<dots> = rev core"
      using assms(3,5) by (cases "rev core") (simp_all add: hd_rev[symmetric])
    finally show ?thesis by simp
  qed
  show ?thesis by (simp only: js_trim_def fore aft rev_rev_ident)
qed

text \<open>
  Claim C9. The request of a user search carries \<open>maxResults\<close> 20 and, as \<open>q\<close>, the
  caller's text trimmed: whitespace around a text that neither begins nor ends with
  whitespace is gone from \<open>q\<close>. It names no ordering. It is the request \<open>fetchBooks\<close> logs
  when it starts, and the one the mounted screen sends 400 time units after a text with a
  character other than whitespace is entered. The popular-books request takes no text from
  a caller: it carries \<open>maxResults\<close> 15, \<open>q\<close> fixed to \<open>subject:fiction\<close> and \<open>orderBy\<close>
  \<open>relevance\<close>, and it is the request \<open>fetchPopularBooks\<close> passes to \<^verbatim>\<open>fetch\<close>: a
  \<^verbatim>\<open>fetch\<close> that answers this request alone with books gets them returned. Both
  requests go to the same endpoint, and no parameter name occurs twice, whether or not an
  API key is configured.
\<close>

theorem request_parameters:
  "map_of (params (searchRequest key q)) ''maxResults'' = Some ''20''
 \<and> map_of (params (searchRequest key q)) ''q'' = Some (js_trim q)
 \<and> (list_all isWhiteSpace pre \<and> list_all isWhiteSpace post \<and> core \<noteq> []
      \<and> \<not> isWhiteSpace (hd core) \<and> \<not> isWhiteSpace (last core)
     \<longrightarrow> map_of (params (searchRequest key (pre @ core @ post))) ''q'' = Some core)
 \<and> map_of (params (searchRequest key q)) ''orderBy'' = None
 \<and> distinct (map fst (params (searchRequest key q)))
 \<and> sent (last (calls (fetchBooks_begin key q s))) = searchRequest key q
 \<and> (js_trim q \<noteq> []
     \<longrightarrow> calls (run key mountedScreen [ChangeText q, Advance 400])
          = [\<lparr>issued_at = 400, argument = q, sent = searchRequest key q\<rparr>])
 \<and> map_of (params (popularRequest key)) ''maxResults'' = Some ''15''
 \<and> map_of (params (popularRequest key)) ''q'' = Some ''subject:fiction''
 \<and> map_of (params (popularRequest key)) ''orderBy'' = Some ''relevance''
 \<and> distinct (map fst (params (popularRequest key)))
 \<and> fetchPopularBooks key (\<lambda>r. if r = popularRequest key then found bs else Rejects NotAnError)
     = \<lparr>data = bs, error = None\<rparr>
 \<and> endpoint (searchRequest key q) = endpoint (popularRequest key)"
proof -
  have sent: "sent (last (calls (fetchBooks_begin key q s))) = searchRequest key q"
    by (simp add: fetchBooks_begin_def)
  have trimmed: "map_of (params (searchRequest key (pre @ core @ post))) ''q'' = Some core"
    if "list_all isWhiteSpace pre" "list_all isWhiteSpace post" "core \<noteq> []"
      "\<not> isWhiteSpace (hd core)" "\<not> isWhiteSpace (last core)"
    using js_trim_strips[OF that] by (simp add: searchRequest_def)
  have screen: "calls (run key mountedScreen [ChangeText q, Advance 400])
          = [\<lparr>issued_at = 400, argument = q, sent = searchRequest key q\<rparr>]"
    if "js_trim q \<noteq> []"
  proof -
    have "q \<noteq> []" using that by (auto simp: js_trim_def)
    then show ?thesis using that
      by (simp add: run_def mountedScreen_def debounceEffect_def debounceCleanup_def
          fireTimer_def fetchBooks_begin_def)
  qed
  have popular: "fetchPopularBooks key
       (\<lambda>r. if r = popularRequest key then found bs else Rejects NotAnError)
     = \<lparr>data = bs, error = None\<rparr>"
    by (simp add: fetchPopularBooks_def fetchPopularBooks_try_def found_def)
  have rest: "map_of (params (searchRequest key q)) ''maxResults'' = Some ''20''
     \<and> map_of (params (searchRequest key q)) ''q'' = Some (js_trim q)
     \<and> map_of (params (searchRequest key q)) ''orderBy'' = None
     \<and> distinct (map fst (params (searchRequest key q)))
     \<and> map_of (params (popularRequest key)) ''maxResults'' = Some ''15''
     \<and> map_of (params (popularRequest key)) ''q'' = Some ''subject:fiction''
     \<and> map_of (params (popularRequest key)) ''orderBy'' = Some ''relevance''
     \<and> distinct (map fst (params (popularRequest key)))
     \<and> endpoint (searchRequest key q) = endpoint (popularRequest key)"
    using keyParam_cases[of key]
  proof
    assume "keyParam key = []"
    then show ?thesis by (simp add: searchRequest_def popularRequest_def)
  next
    assume "\<exists>k. keyParam key = [(''key'', k)]"
    then obtain k where "keyParam key = [(''key'', k)]" ..
    then show ?thesis by (simp add: searchRequest_def popularRequest_def)
  qed
  show ?thesis using sent trimmed screen popular rest by blast
qed

text \<open>
  An instance: a title typed with spaces before it and a no-break space and a line feed
  after it, and the popular-books client against a \<^verbatim>\<open>fetch\<close> that knows one request.
\<close>

theorem request_parameters_witness:
  "map_of (params (searchRequest None (''  '' @ ''harry potter'' @ [CHR 0xA0, CHR 0x0A]))) ''q''
     = Some ''harry potter''
 \<and> calls (run None mountedScreen [ChangeText ''  dune'', Advance 400])
     = [\<lparr>issued_at = 400, argument = ''  dune'', sent = searchRequest None ''  dune''\<rparr>]
 \<and> map_of (params (searchRequest None ''  dune'')) ''q'' = Some ''dune''
 \<and> fetchPopularBooks None
      (\<lambda>r. if r = popularRequest None then found [testBook] else Rejects NotAnError)
     = \<lparr>data = [testBook], error = None\<rparr>"
proof -
  have t: "js_trim ''  dune'' = ''dune''"
    by (simp add: js_trim_def isWhiteSpace_def)
  have w: "list_all isWhiteSpace ''  ''" "list_all isWhiteSpace [CHR 0xA0, CHR 0x0A]"
    "\<not> isWhiteSpace (hd ''harry potter'')" "\<not> isWhiteSpace (last ''harry potter'')"
    by (simp_all add: isWhiteSpace_def)
  show ?thesis
    using request_parameters[of None "''  dune''" "''  ''" "[CHR 0xA0, CHR 0x0A]"
        "''harry potter''" mountedScreen "[testBook]"] t w
    by simp
qed

section \<open>Properties of the cover images\<close>

lemma toHttps_nonempty: "u \<noteq> [] \<Longrightarrow> js_replace u ''http://'' ''https://'' \<noteq> []"
  by (cases u) simp_all

text \<open>
  Claim C10. The link drawn is the \<^verbatim>\<open>thumbnail\<close> when the book has a non-empty one, and
  the \<^verbatim>\<open>smallThumbnail\<close> when it has no \<^verbatim>\<open>thumbnail\<close>; what the image renderer receives
  is that link with its first \<open>http://\<close> replaced by \<open>https://\<close>. In particular a link
  that begins with \<open>http://\<close> is drawn with \<open>https://\<close> in its place. This holds in the
  row of the search screen, and in the detail screen when the book was fetched there (no
  thumbnail among the navigation parameters). A book without image links gets no address,
  hence the placeholder.
\<close>

theorem cover_uses_https:
  "(imageLinks (volumeInfo b) = Some links \<and> thumbnail links = Some (''http://'' @ rest)
      \<longrightarrow> bookRow_image b = Some (''https://'' @ rest)
        \<and> (param_thumbnail ps = None \<longrightarrow> detail_image ps (Some b) = Some (''https://'' @ rest)))
 \<and> (imageLinks (volumeInfo b) = Some links \<and> thumbnail links = None
       \<and> smallThumbnail links = Some (''http://'' @ rest)
      \<longrightarrow> bookRow_image b = Some (''https://'' @ rest)
        \<and> (param_thumbnail ps = None \<longrightarrow> detail_image ps (Some b) = Some (''https://'' @ rest)))
 \<and> (imageLinks (volumeInfo b) = Some links \<and> thumbnail links = Some u \<and> u \<noteq> []
      \<longrightarrow> bookRow_image b = Some (js_replace u ''http://'' ''https://'')
        \<and> (param_thumbnail ps = None
             \<longrightarrow> detail_image ps (Some b) = Some (js_replace u ''http://'' ''https://'')))
 \<and> (imageLinks (volumeInfo b) = Some links \<and> thumbnail links = None
       \<and> smallThumbnail links = Some u \<and> u \<noteq> []
      \<longrightarrow> bookRow_image b = Some (js_replace u ''http://'' ''https://'')
        \<and> (param_thumbnail ps = None
             \<longrightarrow> detail_image ps (Some b) = Some (js_replace u ''http://'' ''https://'')))
 \<and> (imageLinks (volumeInfo b) = None
      \<longrightarrow> bookRow_image b = None
        \<and> (param_thumbnail ps = None \<longrightarrow> detail_image ps (Some b) = None))"
proof -
  have prefixed: "js_replace (''http://'' @ rest) ''http://'' ''https://'' = ''https://'' @ rest"
    by (simp add: js_startsWith_def)
  have shown: "rendered (Some (js_replace v ''http://'' ''https://''))
      = Some (js_replace v ''http://'' ''https://'')" if "v \<noteq> []" for v
    using toHttps_nonempty[OF that] by (simp add: rendered_def)
  have a: "bookRow_image b = Some (js_replace v ''http://'' ''https://'')
        \<and> (param_thumbnail ps = None
             \<longrightarrow> detail_image ps (Some b) = Some (js_replace v ''http://'' ''https://''))"
    if "imageLinks (volumeInfo b) = Some links" "thumbnail links = Some v" "v \<noteq> []" for v
    using that shown[of v] toHttps_nonempty[OF that(3)]
    by (simp add: bookRow_image_def bookRow_thumbnail_def detail_image_def detail_thumbnail_def
        linkOf_def toHttps_def js_or_def nullish_def del: js_replace.simps)
  have b: "bookRow_image b = Some (js_replace v ''http://'' ''https://'')
        \<and> (param_thumbnail ps = None
             \<longrightarrow> detail_image ps (Some b) = Some (js_replace v ''http://'' ''https://''))"
    if "imageLinks (volumeInfo b) = Some links" "thumbnail links = None"
      "smallThumbnail links = Some v" "v \<noteq> []" for v
    using that shown[of v] toHttps_nonempty[OF that(4)]
    by (simp add: bookRow_image_def bookRow_thumbnail_def detail_image_def detail_thumbnail_def
        linkOf_def toHttps_def js_or_def nullish_def del: js_replace.simps)
  have c: "bookRow_image b = None
        \<and> (param_thumbnail ps = None \<longrightarrow> detail_image ps (Some b) = None)"
    if "imageLinks (volumeInfo b) = None"
    using that
    by (simp add: bookRow_image_def bookRow_thumbnail_def detail_image_def detail_thumbnail_def
        linkOf_def toHttps_def js_or_def nullish_def rendered_def)
  have ne: "''http://'' @ rest \<noteq> []" by simp
  show ?thesis
    using a[of u] b[of u] c a[of "''http://'' @ rest", unfolded prefixed]
      b[of "''http://'' @ rest", unfolded prefixed] ne
    by blast
qed

text \<open>
  Instances: the book of the test suite without links, with a \<^verbatim>\<open>thumbnail\<close> only, and
  with a \<^verbatim>\<open>smallThumbnail\<close> only.
\<close>

theorem cover_uses_https_witness:
  "bookRow_image (withLinks (coverOnly ''http://books.example/a.jpg'') testBook)
     = Some ''https://books.example/a.jpg''
 \<and> detail_image (idOnly ''1'') (Some (withLinks (coverOnly ''http://books.example/a.jpg'') testBook))
     = Some ''https://books.example/a.jpg''
 \<and> bookRow_image (withLinks (smallCoverOnly ''http://books.example/s.jpg'') testBook)
     = Some ''https://books.example/s.jpg''
 \<and> detail_image (idOnly ''1'') (Some (withLinks (smallCoverOnly ''http://books.example/s.jpg'') testBook))
     = Some ''https://books.example/s.jpg''
 \<and> bookRow_image testBook = None
 \<and> detail_image (idOnly ''1'') (Some testBook) = None"
  using
    cover_uses_https[of "withLinks (coverOnly ''http://books.example/a.jpg'') testBook"
      "coverOnly ''http://books.example/a.jpg''" "''books.example/a.jpg''" "idOnly ''1''"
      "''http://books.example/a.jpg''"]
    cover_uses_https[of "withLinks (smallCoverOnly ''http://books.example/s.jpg'') testBook"
      "smallCoverOnly ''http://books.example/s.jpg''" "''books.example/s.jpg''" "idOnly ''1''"
      "''http://books.example/s.jpg''"]
    cover_uses_https[of testBook "coverOnly []" "[]" "idOnly ''1''" "[]"]
  by (simp add: withLinks_def coverOnly_def smallCoverOnly_def testBook_def idOnly_def)

section \<open>Properties of the debounced search\<close>

lemma trim_empty_iff: "js_trim t = [] \<longleftrightarrow> list_all isWhiteSpace t"
proof
  assume "js_trim t = []"
  then have "dropWhile isWhiteSpace (rev (dropWhile isWhiteSpace t)) = []"
    by (simp add: js_trim_def)
  then have "\<forall>x \<in> set (dropWhile isWhiteSpace t). isWhiteSpace x"
    by (simp add: dropWhile_eq_Nil_conv)
  then have "dropWhile isWhiteSpace t = []"
    using hd_dropWhile[of isWhiteSpace t] hd_in_set[of "dropWhile isWhiteSpace t"] by blast
  then have "\<forall>x \<in> set t. isWhiteSpace x"
    by (simp only: dropWhile_eq_Nil_conv)
  then show "list_all isWhiteSpace t"
    by (simp only: list_all_iff)
next
  assume "list_all isWhiteSpace t"
  then have "\<forall>x \<in> set t. isWhiteSpace x" by (simp only: list_all_iff)
  then have "dropWhile isWhiteSpace t = []" by (simp only: dropWhile_eq_Nil_conv)
  then show "js_trim t = []" by (simp only: js_trim_def rev.simps dropWhile.simps)
qed

lemma trim_examples:
  "js_trim ''a'' = ''a''" "js_trim ''ab'' = ''ab''" "js_trim ''h'' = ''h''"
  "js_trim ''hi'' = ''hi''" "js_trim '' '' = []" "js_trim ''  '' = []"
  by (simp_all add: js_trim_def isWhiteSpace_def)

lemma run_Nil [simp]: "run key s [] = s"
  by (simp add: run_def)

lemma run_Cons [simp]: "run key s (e # evs) = run key (step key s e) evs"
  by (simp add: run_def)

lemma run_append: "run key s (xs @ ys) = run key (run key s xs) ys"
  by (simp add: run_def)

subsection \<open>Without a timer nothing is sent\<close>

lemma quiet_step:
  assumes "timer s = None" "\<not> isChangeText e"
  shows "timer (step key s e) = None \<and> calls (step key s e) = calls s"
  using assms
  by (cases e) (simp_all add: fireTimer_def debounceCleanup_def fetchBooks_resume_def
      popularEffect_resume_def Let_def split: sum.splits)

lemma quiet_run:
  assumes "timer s = None" "list_all (\<lambda>e. \<not> isChangeText e) evs"
  shows "calls (run key s evs) = calls s"
  using assms
proof (induction evs arbitrary: s)
  case Nil
  then show ?case by simp
next
  case (Cons e evs)
  have "timer (step key s e) = None \<and> calls (step key s e) = calls s"
    using Cons.prems by (intro quiet_step) simp_all
  then show ?case using Cons.IH[of "step key s e"] Cons.prems by simp
qed

lemma blank_change:
  assumes "list_all isWhiteSpace t" "mounted s" "t \<noteq> query s"
  shows "books (step key s (ChangeText t)) = [] \<and> timer (step key s (ChangeText t)) = None
       \<and> calls (step key s (ChangeText t)) = calls s \<and> query (step key s (ChangeText t)) = t"
  using assms trim_empty_iff[of t]
  by (simp add: debounceEffect_def debounceCleanup_def)

lemma idle_step:
  assumes "idle s" "blankOrOther e"
  shows "idle (step key s e)"
  using assms trim_empty_iff
  by (cases e) (simp_all add: idle_def fireTimer_def debounceCleanup_def debounceEffect_def
      popularEffect_resume_def Let_def)

lemma idle_run:
  assumes "idle s" "list_all blankOrOther evs"
  shows "idle (run key s evs)"
  using assms
proof (induction evs arbitrary: s)
  case Nil
  then show ?case by simp
next
  case (Cons e evs)
  then show ?case using idle_step[of s e key] by simp
qed

lemma idle_mounted: "idle mountedScreen"
  by (simp add: idle_def mountedScreen_def)

text \<open>
  Claim C8. When the text of the query becomes empty or whitespace only, the effect empties
  the result list at once and schedules nothing: whatever happens next, short of another
  change of the text, no search request is sent. And on a screen where only such texts are
  ever entered, no search request is sent at all and the result list stays empty, whatever
  time passes.
\<close>

theorem blank_query_sends_nothing:
  "(list_all isWhiteSpace t \<and> mounted s \<and> t \<noteq> query s \<and> list_all (\<lambda>e. \<not> isChangeText e) evs
     \<longrightarrow> books (step key s (ChangeText t)) = []
       \<and> calls (run key (step key s (ChangeText t)) evs) = calls s)
 \<and> (list_all blankOrOther evs'
     \<longrightarrow> calls (run key mountedScreen evs') = [] \<and> books (run key mountedScreen evs') = [])"
proof -
  have "calls (run key mountedScreen evs') = [] \<and> books (run key mountedScreen evs') = []"
    if "list_all blankOrOther evs'"
    using idle_run[OF idle_mounted that, of key] by (simp add: idle_def)
  moreover have "books (step key s (ChangeText t)) = []
       \<and> calls (run key (step key s (ChangeText t)) evs) = calls s"
    if "list_all isWhiteSpace t" "mounted s" "t \<noteq> query s" "list_all (\<lambda>e. \<not> isChangeText e) evs"
    using blank_change[OF that(1,2,3), of key]
      quiet_run[of "step key s (ChangeText t)" evs key] that(4)
    by simp
  ultimately show ?thesis by blast
qed

text \<open>
  Instances: two spaces typed over the results of a finished search for \<open>a\<close>, and a
  screen on which only a space, then a no-break space and a tab are typed.
\<close>

theorem blank_query_sends_nothing_witness:
  "books (step None
      (run None mountedScreen [ChangeText ''a'', Advance 400, Settle 0 (found [testBook])])
      (ChangeText ''  '')) = []
 \<and> calls (run None
      (step None
        (run None mountedScreen [ChangeText ''a'', Advance 400, Settle 0 (found [testBook])])
        (ChangeText ''  ''))
      [Advance 1000])
    = calls (run None mountedScreen [ChangeText ''a'', Advance 400, Settle 0 (found [testBook])])
 \<and> calls (run None mountedScreen
      [ChangeText '' '', Advance 500, ChangeText [CHR 0xA0, CHR 0x09], Advance 1000]) = []"
proof -
  let ?s = "run None mountedScreen [ChangeText ''a'', Advance 400, Settle 0 (found [testBook])]"
  have s: "mounted ?s" "query ?s = ''a''"
    by (simp_all add: mountedScreen_def debounceEffect_def debounceCleanup_def fireTimer_def
      fetchBooks_begin_def fetchBooks_resume_def fetchBooks_try_def found_def trim_examples)
  have b: "list_all isWhiteSpace ''  ''"
    by (simp add: isWhiteSpace_def)
  have e: "list_all blankOrOther [ChangeText '' '', Advance 500, ChangeText [CHR 0xA0, CHR 0x09], Advance 1000]"
    by (simp add: isWhiteSpace_def)
  show ?thesis
    using blank_query_sends_nothing[of "''  ''" ?s "[Advance 1000]" None
        "[ChangeText '' '', Advance 500, ChangeText [CHR 0xA0, CHR 0x09], Advance 1000]"] s b e
    by (simp del: run_Cons run_Nil)
qed

subsection \<open>A burst of keystrokes\<close>

lemma key_step:
  assumes "mounted s"
    and "timer s = None \<or> (\<exists>dl q. timer s = Some (dl, q) \<and> clock s + d < dl)"
    and "t \<noteq> query s"
  shows "mounted (run key s [Advance d, ChangeText t])"
    and "calls (run key s [Advance d, ChangeText t]) = calls s"
    and "clock (run key s [Advance d, ChangeText t]) = clock s + d"
    and "query (run key s [Advance d, ChangeText t]) = t"
    and "timer (run key s [Advance d, ChangeText t]) =
           (if js_trim t = [] then None else Some (clock s + d + 400, t))"
  using assms
  by (auto simp: fireTimer_def debounceEffect_def debounceCleanup_def)

lemma typing_Cons: "typing ((d, t) # ks) = Advance d # ChangeText t # typing ks"
  by (simp add: typing_def)

lemma burst_run:
  assumes "mounted s" and "timer s = None \<or> (\<exists>q. timer s = Some (clock s + 400, q))"
    and "list_all (\<lambda>(d, t). d < 400) ks" and "changing (query s) (map snd ks)" and "ks \<noteq> []"
  shows "mounted (run key s (typing ks))
       \<and> calls (run key s (typing ks)) = calls s
       \<and> clock (run key s (typing ks)) = clock s + sum_list (map fst ks)
       \<and> query (run key s (typing ks)) = snd (last ks)
       \<and> timer (run key s (typing ks)) =
           (if js_trim (snd (last ks)) = [] then None
            else Some (clock s + sum_list (map fst ks) + 400, snd (last ks)))"
  using assms
proof (induction ks arbitrary: s)
  case Nil
  then show ?case by simp
next
  case (Cons k ks)
  obtain d t where k: "k = (d, t)" by (cases k)
  let ?s1 = "run key s [Advance d, ChangeText t]"
  have pre: "timer s = None \<or> (\<exists>dl q. timer s = Some (dl, q) \<and> clock s + d < dl)"
    using Cons.prems(2,3) k by auto
  have neq: "t \<noteq> query s" using Cons.prems(4) k by simp
  note one = key_step[OF Cons.prems(1) pre neq, of key]
  have split: "run key s (typing (k # ks)) = run key ?s1 (typing ks)"
    by (simp add: k typing_Cons)
  show ?case
  proof (cases "ks = []")
    case True
    then show ?thesis using one k by (simp add: typing_def)
  next
    case False
    have t1: "timer ?s1 = None \<or> (\<exists>q. timer ?s1 = Some (clock ?s1 + 400, q))"
      using one(3,5) by (simp del: run_Cons run_Nil)
    have "list_all (\<lambda>(d, t). d < 400) ks" using Cons.prems(3) by simp
    moreover have "changing (query ?s1) (map snd ks)"
      using Cons.prems(4) k one(4) by (simp del: run_Cons run_Nil)
    ultimately have ih: "mounted (run key ?s1 (typing ks))
       \<and> calls (run key ?s1 (typing ks)) = calls ?s1
       \<and> clock (run key ?s1 (typing ks)) = clock ?s1 + sum_list (map fst ks)
       \<and> query (run key ?s1 (typing ks)) = snd (last ks)
       \<and> timer (run key ?s1 (typing ks)) =
           (if js_trim (snd (last ks)) = [] then None
            else Some (clock ?s1 + sum_list (map fst ks) + 400, snd (last ks)))"
      using Cons.IH[OF one(1) t1 _ _ False] by blast
    show ?thesis
      unfolding split using ih False one(2,3) k
      by (simp del: run_Cons run_Nil add: add.assoc)
  qed
qed

lemma fire_after:
  assumes "timer s = Some (dl, q)" and "dl \<le> clock s + w"
  shows "calls (step key s (Advance w)) =
           calls s @ [\<lparr>issued_at = dl, argument = q, sent = searchRequest key q\<rparr>]"
    and "timer (step key s (Advance w)) = None"
  using assms by (simp_all add: fireTimer_def fetchBooks_begin_def)

text \<open>
  Claim C4. On a mounted screen where no timer is due before the first keystroke:
  keystrokes that each change the text and follow one another by less than 400 time units,
  ending in a text that has a character other than whitespace, and then at least 400 time
  units without typing. Exactly one search request is sent: \<open>fetchBooks\<close> is called with
  the final text, 400 time units after the last keystroke, and sends the request built from
  that text. Nothing more is sent afterwards until the text changes again.
\<close>

theorem debounce_sends_one_request:
  assumes "mounted s"
    and "timer s = None \<or> (\<exists>dl q. timer s = Some (dl, q) \<and> clock s + fst (hd ks) < dl)"
    and "ks \<noteq> []" and "list_all (\<lambda>(d, t). d < 400) (tl ks)"
    and "changing (query s) (map snd ks)" and "js_trim (snd (last ks)) \<noteq> []" and "400 \<le> w"
    and "list_all (\<lambda>e. \<not> isChangeText e) evs"
  shows "calls (run key s (typing ks @ Advance w # evs)) =
     calls s @ [\<lparr>issued_at = clock s + sum_list (map fst ks) + 400, argument = snd (last ks),
       sent = searchRequest key (snd (last ks))\<rparr>]"
proof -
  obtain d t rest where ks: "ks = (d, t) # rest" using assms(3) by (cases ks) auto
  let ?s1 = "run key s [Advance d, ChangeText t]"
  have neq: "t \<noteq> query s" using assms(5) ks by simp
  have pre: "timer s = None \<or> (\<exists>dl q. timer s = Some (dl, q) \<and> clock s + d < dl)"
    using assms(2) ks by simp
  note one = key_step[OF assms(1) pre neq, of key]
  let ?sf = "run key s (typing ks)"
  have fin: "calls ?sf = calls s \<and> clock ?sf = clock s + sum_list (map fst ks)
       \<and> timer ?sf = Some (clock s + sum_list (map fst ks) + 400, snd (last ks))"
  proof (cases "rest = []")
    case True
    then show ?thesis using one ks assms(6) by (simp add: typing_def del: run_Cons run_Nil)
  next
    case False
    have t1: "timer ?s1 = None \<or> (\<exists>q. timer ?s1 = Some (clock ?s1 + 400, q))"
      using one(3,5) by (simp del: run_Cons run_Nil)
    have q: "list_all (\<lambda>(d, t). d < 400) rest" using assms(4) ks by simp
    have c: "changing (query ?s1) (map snd rest)"
      using assms(5) ks one(4) by (simp del: run_Cons run_Nil)
    have split: "?sf = run key ?s1 (typing rest)" by (simp add: ks typing_Cons)
    show ?thesis
      unfolding split
      using burst_run[OF one(1) t1 q c False, of key] one(2,3) ks False assms(6)
      by (simp del: run_Cons run_Nil add: add.assoc)
  qed
  let ?sw = "step key ?sf (Advance w)"
  have due: "clock s + sum_list (map fst ks) + 400 \<le> clock ?sf + w" using fin assms(7) by simp
  have tm: "timer ?sf = Some (clock s + sum_list (map fst ks) + 400, snd (last ks))"
    using fin by simp
  have sent: "calls ?sw = calls s @ [\<lparr>issued_at = clock s + sum_list (map fst ks) + 400,
       argument = snd (last ks), sent = searchRequest key (snd (last ks))\<rparr>]"
    using fire_after(1)[OF tm due, of key] fin by simp
  have off: "timer ?sw = None"
    using fire_after(2)[OF tm due, of key] .
  have "run key s (typing ks @ Advance w # evs) = run key ?sw evs"
    by (simp add: run_append)
  then show ?thesis using quiet_run[OF off assms(8), of key] sent by simp
qed

text \<open>
  An instance on the screen as mounted: \<open>h\<close>, then \<open>hi\<close> 150 time units later, then a
  pause; the request for \<open>hi\<close> leaves at time 550, and its answer brings no further
  request.
\<close>

theorem debounce_sends_one_request_witness:
  "calls (run None mountedScreen
      (typing [(0, ''h''), (150, ''hi'')] @ Advance 400 # [Settle 0 (found [testBook]), Advance 1000])) =
     [\<lparr>issued_at = 550, argument = ''hi'', sent = searchRequest None ''hi''\<rparr>]"
  using debounce_sends_one_request[of mountedScreen "[(0, ''h''), (150, ''hi'')]" 400
      "[Settle 0 (found [testBook]), Advance 1000]" None]
  by (simp add: trim_examples mountedScreen_def)

text \<open>
  A space and, 100 time units later, a second space: the final text is not empty, the
  effect returns before it sets a timer, and no request is sent.
\<close>

theorem space_only_text_sends_nothing:
  "''  '' \<noteq> []
 \<and> calls (run None mountedScreen (typing [(0, '' ''), (100, ''  '')] @ [Advance 400])) = []"
  by (simp add: typing_def mountedScreen_def debounceEffect_def debounceCleanup_def
      fireTimer_def trim_examples)

subsection \<open>Answers that arrive late\<close>

text \<open>
  The two effects that capture a \<^verbatim>\<open>cancelled\<close> flag write nothing once their cleanup has
  set it: the popular-books effect of the search screen and the effect of the detail screen.
\<close>

lemma cancelled_popular_is_dropped: "cancelled s \<Longrightarrow> popularEffect_resume r s = s"
  by (simp add: popularEffect_resume_def)

lemma cancelled_lookup_is_dropped: "detail_cancelled s \<Longrightarrow> detailEffect_resume r s = s"
  by (simp add: detailEffect_resume_def)

text \<open>
  Claim C1. The answer to a search request whose text is no longer the current query should
  leave the result list, the error message and the loading flag alone. \<open>fetchBooks\<close>
  captures no flag and tests nothing. Here \<open>a\<close> is typed, its request leaves after 400
  time units, and the text becomes \<open>ab\<close>: the query is \<open>ab\<close>, the only request in flight
  was sent for \<open>a\<close>, the list is empty and the screen is loading. When that request is
  answered, its books are put in the list and loading is switched off; when it fails
  instead, its error message is shown.
\<close>

theorem stale_answer_is_applied:
  "query (run None mountedScreen [ChangeText ''a'', Advance 400, ChangeText ''ab'']) = ''ab''
 \<and> map argument (calls (run None mountedScreen [ChangeText ''a'', Advance 400, ChangeText ''ab'']))
     = [''a'']
 \<and> books (run None mountedScreen [ChangeText ''a'', Advance 400, ChangeText ''ab'']) = []
 \<and> loading (run None mountedScreen [ChangeText ''a'', Advance 400, ChangeText ''ab''])
 \<and> errorSearch (run None mountedScreen [ChangeText ''a'', Advance 400, ChangeText ''ab'']) = None
 \<and> books (run None mountedScreen
      [ChangeText ''a'', Advance 400, ChangeText ''ab'', Settle 0 (found [testBook])]) = [testBook]
 \<and> \<not> loading (run None mountedScreen
      [ChangeText ''a'', Advance 400, ChangeText ''ab'', Settle 0 (found [testBook])])
 \<and> errorSearch (run None mountedScreen
      [ChangeText ''a'', Advance 400, ChangeText ''ab'',
       Settle 0 (Rejects (ErrorObject TypeError ''Failed to fetch''))])
     = Some msgConnectivity"
  by (simp add: mountedScreen_def debounceEffect_def debounceCleanup_def fireTimer_def
      fetchBooks_begin_def fetchBooks_resume_def fetchBooks_try_def found_def trim_examples
      js_startsWith_def)

end
